theory Spec2Isabelle
  imports Main "HOL-Library.Word" "HOL-Library.Sublist"
begin

section \<open>JavaScript values used by the dashboard client\<close>

text \<open>
  A JavaScript string is a sequence of 16-bit code units. String literals of the
  sources are ASCII; \<open>js\<close> turns an ASCII literal into its code units.
  Truthiness of a string is non-emptiness.
\<close>

type_synonym code_unit = "16 word"
type_synonym jsstring = "code_unit list"

definition js :: "string \<Rightarrow> jsstring" where
  "js s = map of_char s"

text \<open>
  \<open>String.prototype.trim\<close> removes leading and trailing WhiteSpace and
  LineTerminator code units (ECMAScript: TAB, VT, FF, ZWNBSP, the Unicode space
  separators, LF, CR, LS, PS). All of them are single code units.
\<close>

definition isWhiteSpace :: "code_unit \<Rightarrow> bool" where
  "isWhiteSpace c \<longleftrightarrow>
     c \<in> {0x0009, 0x000A, 0x000B, 0x000C, 0x000D, 0x0020, 0x00A0, 0x1680,
          0x2028, 0x2029, 0x202F, 0x205F, 0x3000, 0xFEFF}
     \<or> (0x2000 \<le> c \<and> c \<le> 0x200A)"

definition trim :: "jsstring \<Rightarrow> jsstring" where
  "trim s = rev (dropWhile isWhiteSpace (rev (dropWhile isWhiteSpace s)))"

text \<open>
  An optional boolean prop (\<open>isLoading?: boolean\<close>) is \<open>None\<close> when it is
  \<open>undefined\<close>; only \<open>true\<close> is truthy.
\<close>

definition truthy :: "bool option \<Rightarrow> bool" where
  "truthy b = (b = Some True)"

text \<open>
  \<open>encodeURIComponent\<close> (ECMAScript \<open>Encode\<close> with the unreserved set of letters,
  digits and \<open>- _ . ! ~ * ' ( )\<close>): an unreserved code unit is copied; any other code
  point is written as the percent-escaped octets of its UTF-8 encoding; a surrogate
  code unit that is not part of a pair throws \<open>URIError\<close>.
\<close>

datatype error =
    Error jsstring
  | URIError
  | TypeError
  | SyntaxError

definition uriUnescaped :: "code_unit \<Rightarrow> bool" where
  "uriUnescaped c \<longleftrightarrow>
     (0x41 \<le> c \<and> c \<le> 0x5A) \<or> (0x61 \<le> c \<and> c \<le> 0x7A) \<or> (0x30 \<le> c \<and> c \<le> 0x39)
     \<or> c \<in> {0x2D, 0x5F, 0x2E, 0x21, 0x7E, 0x2A, 0x27, 0x28, 0x29}"

definition isLeadingSurrogate :: "code_unit \<Rightarrow> bool" where
  "isLeadingSurrogate c \<longleftrightarrow> 0xD800 \<le> c \<and> c \<le> 0xDBFF"

definition isTrailingSurrogate :: "code_unit \<Rightarrow> bool" where
  "isTrailingSurrogate c \<longleftrightarrow> 0xDC00 \<le> c \<and> c \<le> 0xDFFF"

definition UTF16SurrogatePairToCodePoint :: "code_unit \<Rightarrow> code_unit \<Rightarrow> nat" where
  "UTF16SurrogatePairToCodePoint lead trail =
     (unat lead - 0xD800) * 0x400 + (unat trail - 0xDC00) + 0x10000"

definition utf8_octets :: "nat \<Rightarrow> nat list" where
  "utf8_octets cp =
     (if cp < 0x80 then [cp]
      else if cp < 0x800 then [0xC0 + cp div 0x40, 0x80 + cp mod 0x40]
      else if cp < 0x10000 then
        [0xE0 + cp div 0x1000, 0x80 + (cp div 0x40) mod 0x40, 0x80 + cp mod 0x40]
      else
        [0xF0 + cp div 0x40000, 0x80 + (cp div 0x1000) mod 0x40,
         0x80 + (cp div 0x40) mod 0x40, 0x80 + cp mod 0x40])"

definition hex_digit :: "nat \<Rightarrow> code_unit" where
  "hex_digit n = (if n < 10 then of_nat (0x30 + n) else of_nat (0x41 + (n - 10)))"

definition percent_octet :: "nat \<Rightarrow> jsstring" where
  "percent_octet b = [0x25, hex_digit (b div 16), hex_digit (b mod 16)]"

definition percent_encode :: "nat \<Rightarrow> jsstring" where
  "percent_encode cp = concat (map percent_octet (utf8_octets cp))"

fun encodeURIComponent :: "jsstring \<Rightarrow> error + jsstring" where
  "encodeURIComponent [] = Inr []"
| "encodeURIComponent (c # cs) =
     (if uriUnescaped c then
        (case encodeURIComponent cs of Inl e \<Rightarrow> Inl e | Inr r \<Rightarrow> Inr (c # r))
      else if isTrailingSurrogate c then Inl URIError
      else if isLeadingSurrogate c then
        (case cs of
           [] \<Rightarrow> Inl URIError
         | d # ds \<Rightarrow>
             if isTrailingSurrogate d then
               (case encodeURIComponent ds of
                  Inl e \<Rightarrow> Inl e
                | Inr r \<Rightarrow> Inr (percent_encode (UTF16SurrogatePairToCodePoint c d) @ r))
             else Inl URIError)
      else
        (case encodeURIComponent cs of
           Inl e \<Rightarrow> Inl e
         | Inr r \<Rightarrow> Inr (percent_encode (unat c) @ r)))"

text \<open>
  Values of the client that are handed to \<open>JSON.stringify\<close> or come out of
  \<open>response.json()\<close>, and the JSON document \<open>JSON.stringify\<close> produces. A property
  whose value is \<open>undefined\<close> is left out of an object; \<open>undefined\<close> inside an array
  becomes \<open>null\<close>; \<open>JSON.stringify(undefined)\<close> is \<open>undefined\<close>. The document is kept
  as a tree (its text is the serialisation of that tree, keys in insertion order).
  Numbers are never inspected by the client; they are kept opaque.
\<close>

typedecl js_number

datatype jsvalue =
    Undefined
  | Null
  | Bool bool
  | Num js_number
  | Str jsstring
  | Arr "jsvalue list"
  | Obj "(string \<times> jsvalue) list"

datatype json =
    JNull
  | JBool bool
  | JNumber js_number
  | JString jsstring
  | JArray "json list"
  | JObject "(string \<times> json) list"

fun JSON_stringify :: "jsvalue \<Rightarrow> json option" where
  "JSON_stringify Undefined = None"
| "JSON_stringify Null = Some JNull"
| "JSON_stringify (Bool b) = Some (JBool b)"
| "JSON_stringify (Num n) = Some (JNumber n)"
| "JSON_stringify (Str s) = Some (JString s)"
| "JSON_stringify (Arr vs) =
     Some (JArray (map (\<lambda>v. case JSON_stringify v of None \<Rightarrow> JNull | Some j \<Rightarrow> j) vs))"
| "JSON_stringify (Obj kvs) =
     Some (JObject (concat (map (\<lambda>kv.
        case JSON_stringify (snd kv) of None \<Rightarrow> [] | Some j \<Rightarrow> [(fst kv, j)]) kvs)))"

text \<open>
  Reading a property. \<open>get_property v k\<close> is \<open>v.k\<close> for a property name \<open>k\<close> that
  no prototype defines (such as \<open>message\<close>, \<open>actions\<close>, \<open>type\<close>, \<open>path\<close>): on
  \<open>undefined\<close> and \<open>null\<close> it throws \<open>TypeError\<close>; on an object it is the value
  stored under the key, the last one when the key is repeated, or \<open>undefined\<close>; on
  every other value it is \<open>undefined\<close>.
\<close>

fun get_property :: "jsvalue \<Rightarrow> string \<Rightarrow> error + jsvalue" where
  "get_property Undefined k = Inl TypeError"
| "get_property Null k = Inl TypeError"
| "get_property (Obj kvs) k =
     Inr (case map_of (rev kvs) k of None \<Rightarrow> Undefined | Some v \<Rightarrow> v)"
| "get_property v k = Inr Undefined"

text \<open>
  \<open>fetch\<close>: the request the client hands to the platform, and what comes back. The
  promise rejects (\<open>Inl\<close>) when no response arrives; otherwise it resolves to a
  response whose \<open>ok\<close> flag says whether the status is in 200..299. Reading the body
  as text or as JSON can fail in turn. \<open>fetch(url)\<close> without options is a GET with
  no headers and no body.
\<close>

datatype http_method = GET | POST

record request =
  req_url :: jsstring
  req_method :: http_method
  req_headers :: "(jsstring \<times> jsstring) list"
  req_body :: "json option"

record 'a response =
  ok :: bool
  response_text :: "error + jsstring"
  response_json :: "error + 'a"

type_synonym 'a fetch = "request \<Rightarrow> error + 'a response"

definition fetch_get :: "jsstring \<Rightarrow> request" where
  "fetch_get u = \<lparr>req_url = u, req_method = GET, req_headers = [], req_body = None\<rparr>"

section \<open>lib/api.ts\<close>

text \<open>
  \<open>__API_URL__\<close> is replaced at build time by the configured gateway URL or by the
  empty string; it is the parameter \<open>build_url\<close> of everything below.
  \<open>API_URL = __API_URL__ || ''\<close>.
\<close>

definition API_URL :: "jsstring \<Rightarrow> jsstring" where
  "API_URL build_url = (if build_url \<noteq> [] then build_url else js '''')"

definition apiUrl :: "jsstring \<Rightarrow> jsstring \<Rightarrow> jsstring" where
  "apiUrl build_url path =
     (if API_URL build_url \<noteq> [] then API_URL build_url @ path else path)"

definition previewUrl :: "jsstring \<Rightarrow> jsstring \<Rightarrow> jsstring \<Rightarrow> jsstring \<Rightarrow> jsstring" where
  "previewUrl build_url userId projectId module =
     apiUrl build_url
       (js ''/connect/'' @ userId @ js ''/'' @ projectId @ js ''/'' @ module @ js ''/'')"

definition agentChatUrl :: "jsstring \<Rightarrow> jsstring" where
  "agentChatUrl build_url = apiUrl build_url (js ''/agent/chat'')"

definition sandboxFilesUrl :: "jsstring \<Rightarrow> jsstring \<Rightarrow> jsstring \<Rightarrow> jsstring \<Rightarrow> jsstring" where
  "sandboxFilesUrl build_url userId projectId module =
     apiUrl build_url
       (js ''/connect/'' @ userId @ js ''/'' @ projectId @ js ''/'' @ module
        @ js ''/api/files'')"

section \<open>types: FileNode, SandboxFile\<close>

datatype node_type = type_file | type_directory

datatype FileNode =
  FileNode (node_name: jsstring) (node_path: jsstring) (node_type: node_type)
    (node_children: "FileNode list option")

record SandboxFile =
  file_path :: jsstring
  file_content :: jsstring
  file_type :: node_type

section \<open>types: ModuleType, Message, AgentResponse\<close>

text \<open>
  \<open>ModuleType\<close> is a union of four string literals. Type annotations are erased when
  the client runs, so a module is a string here and the union is the list of its members.
\<close>

definition ModuleType :: "jsstring list" where
  "ModuleType = [js ''prototype'', js ''frontend'', js ''dbml'', js ''tests'']"

text \<open>
  A message of the conversation. Its role is set by the client to one of two literals.
  Its content is declared a string, but the content of an assistant message is whatever
  the reply of the agent holds, so it is a value here.
\<close>

datatype role = user | assistant

definition role_string :: "role \<Rightarrow> jsstring" where
  "role_string r = (case r of user \<Rightarrow> js ''user'' | assistant \<Rightarrow> js ''assistant'')"

record Message =
  msg_id :: jsstring
  msg_role :: role
  msg_content :: jsvalue
  msg_timestamp :: nat

text \<open>
  The interface \<open>AgentResponse\<close>: \<open>message\<close> is a string, and \<open>actions\<close>, when
  present, is an array of objects whose \<open>type\<close> is one of three literals and whose
  \<open>path\<close> is a string. The interface is a compile-time annotation of what
  \<open>response.json()\<close> returns; as a predicate on values it reads as follows.
\<close>

definition is_string :: "error + jsvalue \<Rightarrow> bool" where
  "is_string r = (case r of Inr (Str s) \<Rightarrow> True | _ \<Rightarrow> False)"

definition action_shape :: "jsvalue \<Rightarrow> bool" where
  "action_shape a =
     (case a of
        Obj kvs \<Rightarrow>
          get_property a ''type'' \<in> {Inr (Str (js ''file_created'')),
                                     Inr (Str (js ''file_modified'')),
                                     Inr (Str (js ''file_deleted''))}
          \<and> is_string (get_property a ''path'')
      | _ \<Rightarrow> False)"

definition AgentResponse_shape :: "jsvalue \<Rightarrow> bool" where
  "AgentResponse_shape v =
     (case v of
        Obj kvs \<Rightarrow>
          is_string (get_property v ''message'')
          \<and> (case get_property v ''actions'' of
                Inr Undefined \<Rightarrow> True
              | Inr (Arr as) \<Rightarrow> list_all action_shape as
              | _ \<Rightarrow> False)
      | _ \<Rightarrow> False)"

section \<open>hooks/useSandbox.ts\<close>

definition fetchFileTree_request :: "jsstring \<Rightarrow> jsstring \<Rightarrow> jsstring \<Rightarrow> request" where
  "fetchFileTree_request userId projectId module =
     fetch_get (js ''/connect/'' @ userId @ js ''/'' @ projectId @ js ''/'' @ module
                @ js ''/api/files'')"

definition fetchFileTree ::
  "FileNode list fetch \<Rightarrow> jsstring \<Rightarrow> jsstring \<Rightarrow> jsstring \<Rightarrow> error + FileNode list" where
  "fetchFileTree fetch userId projectId module =
     (case fetch (fetchFileTree_request userId projectId module) of
        Inl e \<Rightarrow> Inl e
      | Inr response \<Rightarrow>
          if \<not> ok response then Inl (Error (js ''Failed to fetch file tree''))
          else response_json response)"

definition readFile_request ::
  "jsstring \<Rightarrow> jsstring \<Rightarrow> jsstring \<Rightarrow> jsstring \<Rightarrow> error + request" where
  "readFile_request userId projectId module path =
     (case encodeURIComponent path of
        Inl e \<Rightarrow> Inl e
      | Inr encoded \<Rightarrow>
          Inr (fetch_get (js ''/connect/'' @ userId @ js ''/'' @ projectId @ js ''/'' @ module
                          @ js ''/api/files?path='' @ encoded)))"

definition readFile ::
  "SandboxFile fetch \<Rightarrow> jsstring \<Rightarrow> jsstring \<Rightarrow> jsstring \<Rightarrow> jsstring \<Rightarrow> error + SandboxFile"
  where
  "readFile fetch userId projectId module path =
     (case readFile_request userId projectId module path of
        Inl e \<Rightarrow> Inl e
      | Inr req \<Rightarrow>
          (case fetch req of
             Inl e \<Rightarrow> Inl e
           | Inr response \<Rightarrow>
               if \<not> ok response then Inl (Error (js ''Failed to read file''))
               else response_json response))"

definition writeFile_request ::
  "jsstring \<Rightarrow> jsstring \<Rightarrow> jsstring \<Rightarrow> jsstring \<Rightarrow> jsstring \<Rightarrow> request" where
  "writeFile_request userId projectId module path content =
     \<lparr>req_url = js ''/connect/'' @ userId @ js ''/'' @ projectId @ js ''/'' @ module
                @ js ''/api/files'',
      req_method = POST,
      req_headers = [(js ''Content-Type'', js ''application/json'')],
      req_body = JSON_stringify (Obj [(''path'', Str path), (''content'', Str content)])\<rparr>"

definition writeFile ::
  "'a fetch \<Rightarrow> jsstring \<Rightarrow> jsstring \<Rightarrow> jsstring \<Rightarrow> jsstring \<Rightarrow> jsstring \<Rightarrow> error + unit" where
  "writeFile fetch userId projectId module path content =
     (case fetch (writeFile_request userId projectId module path content) of
        Inl e \<Rightarrow> Inl e
      | Inr response \<Rightarrow>
          if \<not> ok response then Inl (Error (js ''Failed to write file''))
          else Inr ())"

section \<open>hooks/useAgent.ts\<close>

text \<open>
  \<open>sendAgentMessage\<close> returns \<open>response.json()\<close> as it is: the decoded body of the
  reply, whatever value it is.
\<close>

definition sendAgentMessage_request :: "jsstring \<Rightarrow> jsvalue \<Rightarrow> request" where
  "sendAgentMessage_request build_url request =
     \<lparr>req_url = agentChatUrl build_url,
      req_method = POST,
      req_headers = [(js ''Content-Type'', js ''application/json'')],
      req_body = JSON_stringify request\<rparr>"

definition sendAgentMessage ::
  "jsvalue fetch \<Rightarrow> jsstring \<Rightarrow> jsvalue \<Rightarrow> error + jsvalue" where
  "sendAgentMessage fetch build_url request =
     (case fetch (sendAgentMessage_request build_url request) of
        Inl e \<Rightarrow> Inl e
      | Inr response \<Rightarrow>
          if \<not> ok response then
            (case response_text response of
               Inl e \<Rightarrow> Inl e
             | Inr error \<Rightarrow>
                 Inl (Error (if error \<noteq> [] then error else js ''Failed to send message'')))
          else response_json response)"

text \<open>
  The object literal that \<open>mutationFn\<close> hands to \<open>sendAgentMessage\<close>.
  \<open>chatHistory?.map(...)\<close> is \<open>undefined\<close> when the option \<open>chatHistory\<close> is absent.
\<close>

definition useAgent_request ::
  "jsstring \<Rightarrow> jsstring \<Rightarrow> jsstring \<Rightarrow> Message list option \<Rightarrow> jsstring \<Rightarrow> jsvalue" where
  "useAgent_request userId projectId activeModule chatHistory message =
     Obj [(''message'', Str message),
          (''chat_history'',
             (case chatHistory of
                None \<Rightarrow> Undefined
              | Some h \<Rightarrow>
                  Arr (map (\<lambda>m. Obj [(''role'', Str (role_string (msg_role m))),
                                     (''content'', msg_content m)]) h))),
          (''context'',
             Obj [(''userId'', Str userId),
                  (''projectId'', Str projectId),
                  (''activeModule'', Str activeModule)])]"

definition mutationFn ::
  "jsvalue fetch \<Rightarrow> jsstring \<Rightarrow> jsstring \<Rightarrow> jsstring \<Rightarrow> jsstring \<Rightarrow>
   Message list option \<Rightarrow> jsstring \<Rightarrow> error + jsvalue" where
  "mutationFn fetch build_url userId projectId activeModule chatHistory message =
     sendAgentMessage fetch build_url
       (useAgent_request userId projectId activeModule chatHistory message)"

text \<open>
  \<open>mutation.mutate(variables)\<close> of the query library: it runs the mutation function
  and then the \<open>onSuccess\<close> callback on the result; when the function or the callback
  throws, it runs the \<open>onError\<close> callback on the error instead. A callback that was not
  supplied does nothing, and \<open>mutate\<close> itself never throws. Callbacks act on the state
  of the component that owns them.
\<close>

definition mutate ::
  "('v \<Rightarrow> error + 'r) \<Rightarrow> ('r \<Rightarrow> 's \<Rightarrow> error + 's) option \<Rightarrow> (error \<Rightarrow> 's \<Rightarrow> 's) option \<Rightarrow>
   'v \<Rightarrow> 's \<Rightarrow> 's" where
  "mutate fn onSuccess onError variables st =
     (let failed = (\<lambda>e. case onError of None \<Rightarrow> st | Some g \<Rightarrow> g e st) in
      case fn variables of
        Inl e \<Rightarrow> failed e
      | Inr data \<Rightarrow>
          (case onSuccess of
             None \<Rightarrow> st
           | Some f \<Rightarrow> (case f data st of Inl e \<Rightarrow> failed e | Inr st' \<Rightarrow> st')))"

section \<open>Effects of components\<close>

text \<open>
  What a component does besides rendering: an HTTP request, a call of a callback prop
  (\<open>onSend\<close>, \<open>onFileSelect\<close>), a call of a state setter (\<open>setMessage\<close>,
  \<open>setFilter\<close>, and \<open>setIsOpen\<close> of the tree item mounted for a path),
  \<open>preventDefault\<close> on the event, or \<open>window.open\<close> with a URL and a target.
\<close>

datatype effect =
    Fetch request
  | OnSend jsstring
  | SetMessage jsstring
  | PreventDefault
  | SetFilter jsstring
  | SetIsOpen jsstring bool
  | OnFileSelect jsstring
  | WindowOpen jsstring jsstring

fun is_Fetch :: "effect \<Rightarrow> bool" where
  "is_Fetch (Fetch req) = True"
| "is_Fetch e = False"

section \<open>components/chat/ChatInput.tsx\<close>

text \<open>
  The component keeps the text of the textarea in its state \<open>message\<close>. A handler
  is modelled by the list of effects it performs, in order: calls of the \<open>onSend\<close>
  prop, calls of the state setter, and \<open>e.preventDefault()\<close>.
\<close>

definition handleSubmit :: "jsstring \<Rightarrow> bool option \<Rightarrow> effect list" where
  "handleSubmit message isLoading =
     (let trimmed = trim message in
      if trimmed \<noteq> [] \<and> \<not> truthy isLoading
      then [OnSend trimmed, SetMessage (js '''')]
      else [])"

definition handleKeyDown ::
  "jsstring \<Rightarrow> bool option \<Rightarrow> jsstring \<Rightarrow> bool \<Rightarrow> effect list" where
  "handleKeyDown message isLoading key shiftKey =
     (if key = js ''Enter'' \<and> \<not> shiftKey
      then PreventDefault # handleSubmit message isLoading
      else [])"

text \<open>
  The send button carries \<open>disabled={!message.trim() || isLoading}\<close> and
  \<open>onClick={handleSubmit}\<close>; a disabled button dispatches no click.
\<close>

definition button_disabled :: "jsstring \<Rightarrow> bool option \<Rightarrow> bool" where
  "button_disabled message isLoading \<longleftrightarrow> trim message = [] \<or> truthy isLoading"

definition button_onClick :: "jsstring \<Rightarrow> bool option \<Rightarrow> effect list" where
  "button_onClick message isLoading =
     (if button_disabled message isLoading then [] else handleSubmit message isLoading)"

text \<open>The state after a handler has run: the last \<open>setMessage\<close> wins.\<close>

fun run_chat_input :: "effect list \<Rightarrow> jsstring \<Rightarrow> jsstring" where
  "run_chat_input [] message = message"
| "run_chat_input (SetMessage s # es) message = run_chat_input es s"
| "run_chat_input (e # es) message = run_chat_input es message"

fun sent :: "effect list \<Rightarrow> jsstring list" where
  "sent [] = []"
| "sent (OnSend s # es) = s # sent es"
| "sent (e # es) = sent es"

section \<open>components/chat/ChatPanel.tsx\<close>

text \<open>
  The panel keeps the conversation in its state \<open>messages\<close> (its other state, whether
  the panel is open, plays no part in sending). The identifier from
  \<open>crypto.randomUUID()\<close> and the time from \<open>new Date()\<close> (in milliseconds) are
  passed in as a pair, one pair per message that is built. The panel calls \<open>useAgent\<close>
  without \<open>chatHistory\<close> and without \<open>onError\<close>. Its \<open>onSuccess\<close> reads
  \<open>response.message\<close> while it builds the assistant message, before it touches the
  state; when that read throws, the state is left as it was.
\<close>

definition ChatPanel_onSuccess ::
  "jsstring \<times> nat \<Rightarrow> jsvalue \<Rightarrow> Message list \<Rightarrow> error + Message list" where
  "ChatPanel_onSuccess env response prev =
     (case get_property response ''message'' of
        Inl e \<Rightarrow> Inl e
      | Inr content \<Rightarrow>
          (let assistantMessage =
             \<lparr>msg_id = fst env, msg_role = assistant,
              msg_content = content, msg_timestamp = snd env\<rparr>
           in Inr (prev @ [assistantMessage])))"

definition ChatPanel_request :: "jsstring \<Rightarrow> jsstring \<Rightarrow> jsstring \<Rightarrow> jsstring \<Rightarrow> jsstring \<Rightarrow> request"
  where
  "ChatPanel_request build_url userId projectId activeModule content =
     sendAgentMessage_request build_url
       (useAgent_request userId projectId activeModule None content)"

definition handleSend ::
  "jsvalue fetch \<Rightarrow> jsstring \<Rightarrow> jsstring \<Rightarrow> jsstring \<Rightarrow> jsstring \<Rightarrow>
   jsstring \<times> nat \<Rightarrow> jsstring \<times> nat \<Rightarrow> jsstring \<Rightarrow> Message list \<Rightarrow> Message list" where
  "handleSend fetch build_url userId projectId activeModule env1 env2 content messages =
     (let userMessage =
        \<lparr>msg_id = fst env1, msg_role = user, msg_content = Str content,
         msg_timestamp = snd env1\<rparr>;
          messages1 = messages @ [userMessage]
      in mutate (mutationFn fetch build_url userId projectId activeModule None)
           (Some (ChatPanel_onSuccess env2)) None content messages1)"

text \<open>
  For examples: a gateway that answers every request with status 200 and the given
  decoded body.
\<close>

definition server_replying :: "jsvalue \<Rightarrow> jsvalue fetch" where
  "server_replying body req = Inr \<lparr>ok = True, response_text = Inr [], response_json = Inr body\<rparr>"

section \<open>components/layout/IconSidebar.tsx\<close>

datatype icon =
    Layout | Code | Database | TestTube

record nav_item =
  item_id :: jsstring
  item_icon :: icon
  item_label :: jsstring

definition NAV_ITEMS :: "nav_item list" where
  "NAV_ITEMS =
     [\<lparr>item_id = js ''prototype'', item_icon = Layout, item_label = js ''Prototype''\<rparr>,
      \<lparr>item_id = js ''frontend'', item_icon = Code, item_label = js ''Frontend''\<rparr>,
      \<lparr>item_id = js ''dbml'', item_icon = Database, item_label = js ''DBML''\<rparr>,
      \<lparr>item_id = js ''tests'', item_icon = TestTube, item_label = js ''Tests''\<rparr>]"

text \<open>
  The sidebar renders one button per navigation item, in the order of \<open>NAV_ITEMS\<close>.
  \<open>button_module\<close> is the argument its click handler passes to \<open>onModuleChange\<close>.
\<close>

record nav_button =
  aria_label :: jsstring
  aria_pressed :: bool
  button_icon :: icon
  button_module :: jsstring

definition IconSidebar :: "jsstring \<Rightarrow> nav_button list" where
  "IconSidebar activeModule =
     map (\<lambda>item.
            (let isActive = (activeModule = item_id item) in
             \<lparr>aria_label = item_label item, aria_pressed = isActive,
              button_icon = item_icon item, button_module = item_id item\<rparr>))
         NAV_ITEMS"

section \<open>components/preview/PreviewPane.tsx\<close>

definition MODULE_LABELS :: "jsstring \<rightharpoonup> jsstring" where
  "MODULE_LABELS =
     map_of [(js ''prototype'', js ''Prototype Preview''),
             (js ''frontend'', js ''Frontend Preview''),
             (js ''dbml'', js ''Database Schema''),
             (js ''tests'', js ''Test Results'')]"

record preview_state =
  st_refreshKey :: nat
  st_isLoading :: bool
  st_hasError :: bool

text \<open>
  What the pane shows: the label of the module in the header (\<open>None\<close> when the lookup
  in \<open>MODULE_LABELS\<close> is \<open>undefined\<close>), the URL next to it, the iframe with its key,
  source and title, and whether the loading and the error overlay are present.
\<close>

record preview_view =
  header_label :: "jsstring option"
  header_url :: jsstring
  iframe_key :: nat
  iframe_src :: jsstring
  iframe_title :: jsstring
  loading_overlay :: bool
  error_overlay :: bool

definition PreviewPane ::
  "jsstring \<Rightarrow> jsstring \<Rightarrow> jsstring \<Rightarrow> jsstring \<Rightarrow> preview_state \<Rightarrow> preview_view" where
  "PreviewPane build_url activeModule userId projectId st =
     (let previewUrl' = previewUrl build_url userId projectId activeModule in
      \<lparr>header_label = MODULE_LABELS activeModule,
       header_url = previewUrl',
       iframe_key = st_refreshKey st,
       iframe_src = previewUrl',
       iframe_title = activeModule @ js '' preview'',
       loading_overlay = (st_isLoading st \<and> \<not> st_hasError st),
       error_overlay = st_hasError st\<rparr>)"

text \<open>
  The handlers of the pane. The refresh button bumps the key of the iframe; the effect
  hook that depends on \<open>[activeModule, refreshKey]\<close> puts the pane back into the
  loading state; the iframe reports load and error; the external-link button opens the
  preview URL in a new tab.
\<close>

definition handleRefresh :: "preview_state \<Rightarrow> preview_state" where
  "handleRefresh st = st\<lparr>st_refreshKey := st_refreshKey st + 1\<rparr>"

definition PreviewPane_useEffect :: "preview_state \<Rightarrow> preview_state" where
  "PreviewPane_useEffect st = st\<lparr>st_isLoading := True, st_hasError := False\<rparr>"

definition handleIframeLoad :: "preview_state \<Rightarrow> preview_state" where
  "handleIframeLoad st = st\<lparr>st_isLoading := False\<rparr>"

definition handleIframeError :: "preview_state \<Rightarrow> preview_state" where
  "handleIframeError st = st\<lparr>st_hasError := True, st_isLoading := False\<rparr>"

definition handleOpenExternal :: "jsstring \<Rightarrow> jsstring \<Rightarrow> jsstring \<Rightarrow> jsstring \<Rightarrow> effect list"
  where
  "handleOpenExternal build_url activeModule userId projectId =
     [WindowOpen (previewUrl build_url userId projectId activeModule) (js ''_blank'')]"

text \<open>
  An earlier revision of the pane (it has no load and error handlers) builds the URL in
  place and does not go through \<open>lib/api.ts\<close>.
\<close>

definition PreviewPane_inline_url :: "jsstring \<Rightarrow> jsstring \<Rightarrow> jsstring \<Rightarrow> jsstring" where
  "PreviewPane_inline_url activeModule userId projectId =
     js ''/connect/'' @ userId @ js ''/'' @ projectId @ js ''/'' @ activeModule @ js ''/''"

section \<open>components/sidebar/ListModule.tsx\<close>

definition MOCK_FILES :: "FileNode list" where
  "MOCK_FILES =
     [FileNode (js ''src'') (js ''/src'') type_directory
        (Some
          [FileNode (js ''index.html'') (js ''/src/index.html'') type_file None,
           FileNode (js ''App.tsx'') (js ''/src/App.tsx'') type_file None,
           FileNode (js ''styles.css'') (js ''/src/styles.css'') type_file None,
           FileNode (js ''components'') (js ''/src/components'') type_directory
             (Some
               [FileNode (js ''Header.tsx'') (js ''/src/components/Header.tsx'') type_file None,
                FileNode (js ''Footer.tsx'') (js ''/src/components/Footer.tsx'') type_file
                  None])]),
      FileNode (js ''package.json'') (js ''/package.json'') type_file None,
      FileNode (js ''README.md'') (js ''/README.md'') type_file None]"

text \<open>
  Every tree item has a state cell \<open>isOpen\<close>, initialised to \<open>depth === 0\<close>. The
  cells of the mounted items are kept by path, the key under which an item is mounted
  (the paths of \<open>MOCK_FILES\<close> are distinct); \<open>None\<close> is a cell that has not been set.
  A row is what an item shows of its node; icons and style classes are not modelled.
  An item renders its children only when it is an open directory.
\<close>

type_synonym open_state = "jsstring \<Rightarrow> bool option"

record tree_row =
  row_name :: jsstring
  row_path :: jsstring
  row_depth :: nat
  row_directory :: bool
  row_open :: bool

fun FileTreeItem :: "open_state \<Rightarrow> nat \<Rightarrow> FileNode \<Rightarrow> tree_row list" where
  "FileTreeItem st depth (FileNode name path type children) =
     (let isOpen = (case st path of None \<Rightarrow> depth = 0 | Some b \<Rightarrow> b);
          isDirectory = (type = type_directory)
      in \<lparr>row_name = name, row_path = path, row_depth = depth,
          row_directory = isDirectory, row_open = isOpen\<rparr>
         # (if isDirectory \<and> isOpen then
              (case children of
                 None \<Rightarrow> []
               | Some cs \<Rightarrow> concat (map (FileTreeItem st (depth + 1)) cs))
            else []))"

text \<open>
  \<open>handleSelect\<close> calls the optional prop \<open>onFileSelect\<close> when it was supplied
  (\<open>onFileSelect?.(path)\<close>); the flag says whether it was.
\<close>

definition handleSelect :: "bool \<Rightarrow> jsstring \<Rightarrow> effect list" where
  "handleSelect onFileSelect path = (if onFileSelect then [OnFileSelect path] else [])"

definition FileTreeItem_onClick :: "bool \<Rightarrow> FileNode \<Rightarrow> bool \<Rightarrow> effect list" where
  "FileTreeItem_onClick onFileSelect node isOpen =
     (if node_type node = type_directory then [SetIsOpen (node_path node) (\<not> isOpen)]
      else handleSelect onFileSelect (node_path node))"

record list_module_view =
  input_value :: jsstring
  tree_rows :: "tree_row list"

definition ListModule :: "jsstring \<Rightarrow> open_state \<Rightarrow> list_module_view" where
  "ListModule filter' st =
     \<lparr>input_value = filter',
      tree_rows = concat (map (FileTreeItem st 0) MOCK_FILES)\<rparr>"

definition ListModule_onChange :: "jsstring \<Rightarrow> effect list" where
  "ListModule_onChange v = [SetFilter v]"

text \<open>
  Mounting the component runs \<open>useState\<close> only: it starts no query and no effect.
  Mounting a component that calls \<open>useSandbox\<close> starts the file-tree query.
\<close>

definition ListModule_mount :: "effect list" where
  "ListModule_mount = []"

definition useSandbox_mount :: "jsstring \<Rightarrow> jsstring \<Rightarrow> jsstring \<Rightarrow> effect list" where
  "useSandbox_mount userId projectId module =
     [Fetch (fetchFileTree_request userId projectId module)]"

section \<open>components/layout/AppShell.tsx and App.tsx\<close>

text \<open>
  The shell renders the icon sidebar, the file browser (without \<open>onFileSelect\<close>), the
  preview pane and the chat panel; the state of the children is kept by the framework
  and passed in here. \<open>shell_chat\<close> are the props handed to the chat panel.
\<close>

record app_shell_view =
  shell_sidebar :: "nav_button list"
  shell_list :: list_module_view
  shell_preview :: preview_view
  shell_chat :: "jsstring \<times> jsstring \<times> jsstring"

definition AppShell ::
  "jsstring \<Rightarrow> jsstring \<Rightarrow> jsstring \<Rightarrow> jsstring \<Rightarrow> jsstring \<Rightarrow> open_state \<Rightarrow>
   preview_state \<Rightarrow> app_shell_view" where
  "AppShell build_url activeModule userId projectId filter' opened pane =
     \<lparr>shell_sidebar = IconSidebar activeModule,
      shell_list = ListModule filter' opened,
      shell_preview = PreviewPane build_url activeModule userId projectId pane,
      shell_chat = (userId, projectId, activeModule)\<rparr>"

text \<open>
  \<open>App\<close> holds \<open>activeModule\<close>, initially \<open>'prototype'\<close>, and hands
  \<open>setActiveModule\<close> to the shell as \<open>onModuleChange\<close>; the only caller is the click
  handler of a sidebar button. User and project are fixed placeholders.
\<close>

definition App ::
  "jsstring \<Rightarrow> jsstring \<Rightarrow> jsstring \<Rightarrow> open_state \<Rightarrow> preview_state \<Rightarrow> app_shell_view" where
  "App build_url activeModule filter' opened pane =
     AppShell build_url activeModule (js ''demo-user'') (js ''demo-project'') filter' opened pane"

inductive App_reachable :: "jsstring \<Rightarrow> bool" where
  initial: "App_reachable (js ''prototype'')"
| onModuleChange:
    "App_reachable activeModule \<Longrightarrow> b \<in> set (IconSidebar activeModule) \<Longrightarrow>
     App_reachable (button_module b)"

section \<open>Path Security\<close>

text \<open>
  Modelled from the spec: the path validation of the sandbox (\<open>security/utils.py\<close>)
  is not among the sources. The definitions of this section follow the contract of
  \<open>resolve(module_root, user_supplied_relative_path)\<close>: it returns an absolute path
  under the module root, or fails with \<open>PathTraversal\<close> for a path with a \<open>..\<close>
  segment, an absolute path (which would override the root), a path with a null byte or
  another control character, a path with an encoded separator, a path that leaves the
  root through a symbolic link, an empty path, and a path that resolves to the module
  root itself. Paths are byte strings with \<open>/\<close> as separator.
\<close>

datatype security_error = PathTraversal

text \<open>Modelled from the spec: the segments of a path, split at every \<open>/\<close>.\<close>

fun split_path :: "string \<Rightarrow> string list" where
  "split_path [] = [[]]"
| "split_path (c # cs) =
     (if c = CHR ''/'' then [] # split_path cs
      else (case split_path cs of [] \<Rightarrow> [[c]] | s # ss \<Rightarrow> (c # s) # ss))"

text \<open>Modelled from the spec: null byte and control characters.\<close>

definition is_control :: "char \<Rightarrow> bool" where
  "is_control c \<longleftrightarrow> (of_char c :: nat) < 32 \<or> (of_char c :: nat) = 127"

text \<open>Modelled from the spec: an absolute path overrides the root it is joined to.\<close>

definition is_absolute :: "string \<Rightarrow> bool" where
  "is_absolute p = (case p of [] \<Rightarrow> False | c # cs \<Rightarrow> c = CHR ''/'')"

text \<open>
  Modelled from the spec: a separator disguised through encoding, that is a
  percent-encoded slash (\<open>%2f\<close>) or backslash (\<open>%5c\<close>), in either case of
  the hex digit, anywhere in the path.
\<close>

fun encoded_separator :: "string \<Rightarrow> bool" where
  "encoded_separator (a # b # c # cs) =
     ((a = CHR ''%'' \<and>
        ((b = CHR ''2'' \<and> (c = CHR ''f'' \<or> c = CHR ''F''))
         \<or> (b = CHR ''5'' \<and> (c = CHR ''c'' \<or> c = CHR ''C''))))
      \<or> encoded_separator (b # c # cs))"
| "encoded_separator cs = False"

text \<open>
  Modelled from the spec: \<open>resolve\<close>. Whether a candidate path leaves the module root
  through a symbolic link is a question to the file system; its answer is the parameter
  \<open>links_outside\<close>. Empty and \<open>.\<close> segments are dropped when the path is normalised.
\<close>

definition resolve ::
  "(string \<Rightarrow> bool) \<Rightarrow> string \<Rightarrow> string \<Rightarrow> security_error + string" where
  "resolve links_outside module_root p =
     (let segs = filter (\<lambda>s. s \<noteq> [] \<and> s \<noteq> ''.'') (split_path p);
          candidate = module_root @ concat (map (\<lambda>s. CHR ''/'' # s) segs)
      in if p = [] then Inl PathTraversal
         else if list_ex is_control p then Inl PathTraversal
         else if encoded_separator p then Inl PathTraversal
         else if is_absolute p then Inl PathTraversal
         else if ''..'' \<in> set (split_path p) then Inl PathTraversal
         else if segs = [] then Inl PathTraversal
         else if links_outside candidate then Inl PathTraversal
         else Inr candidate)"

text \<open>
  Modelled from the spec: an absolute path lies inside the module root when it is the
  root followed by \<open>/\<close> and a non-empty rest none of whose segments is \<open>..\<close>.
\<close>

definition inside_root :: "string \<Rightarrow> string \<Rightarrow> bool" where
  "inside_root module_root a \<longleftrightarrow>
     prefix (module_root @ ''/'') a
     \<and> (let rest = drop (length module_root + 1) a
        in rest \<noteq> [] \<and> ''..'' \<notin> set (split_path rest))"

section \<open>Process Manager and Gateway Router\<close>

text \<open>
  Modelled from the spec: the supervisor of the module servers
  (\<open>sandbox/process_manager.py\<close>) and the router (\<open>gateway/router.py\<close>) are not
  among the sources. The definitions of this section follow the data model (Module,
  ManagedProcess, ProcessState), the Process Manager (start, unexpected exit with a
  retry budget, stop) and the Gateway Router (parsing the module of a \<open>/connect\<close>
  route, \<open>UnknownModule\<close>, the proxy target \<open>http://localhost:{module_port}/{path}\<close>).
  The command and the working directory of a process are left out.
\<close>

text \<open>Modelled from the spec: the closed, ordered set of modules.\<close>

datatype Module = Prototype | Frontend | Dbml | Tests

definition modules :: "Module list" where
  "modules = [Prototype, Frontend, Dbml, Tests]"

text \<open>Modelled from the spec: the name of a module as it stands in a route.\<close>

definition name_of_module :: "Module \<Rightarrow> string" where
  "name_of_module m =
     (case m of Prototype \<Rightarrow> ''prototype'' | Frontend \<Rightarrow> ''frontend''
      | Dbml \<Rightarrow> ''dbml'' | Tests \<Rightarrow> ''tests'')"

text \<open>
  Modelled from the spec: the static port binding (3001 prototype, 3002 frontend,
  3003 dbml, 3004 tests), the operation \<open>module_port(module)\<close> of an instance.
\<close>

definition module_port :: "Module \<Rightarrow> nat" where
  "module_port m =
     (case m of Prototype \<Rightarrow> 3001 | Frontend \<Rightarrow> 3002 | Dbml \<Rightarrow> 3003 | Tests \<Rightarrow> 3004)"

text \<open>Modelled from the spec: a managed process, one per module.\<close>

datatype ProcessState = NotStarted | Running | Crashed | Stopped

record ManagedProcess =
  proc_module :: Module
  proc_port :: "nat option"
  proc_pid :: "nat option"
  proc_state :: ProcessState
  restart_count :: nat

type_synonym process_manager = "Module \<Rightarrow> ManagedProcess"

text \<open>
  Modelled from the spec: before any start, no process is running and no port is bound.
\<close>

definition pm_initial :: process_manager where
  "pm_initial m =
     \<lparr>proc_module = m, proc_port = None, proc_pid = None, proc_state = NotStarted,
      restart_count = 0\<rparr>"

text \<open>
  Modelled from the spec: \<open>start(module)\<close> spawns the server of the module bound to
  its fixed port and records the pid (the pid comes from the operating system).
\<close>

definition spawn :: "Module \<Rightarrow> nat \<Rightarrow> ManagedProcess \<Rightarrow> ManagedProcess" where
  "spawn m pid p =
     p\<lparr>proc_port := Some (module_port m), proc_pid := Some pid, proc_state := Running\<rparr>"

definition start :: "Module \<Rightarrow> nat \<Rightarrow> process_manager \<Rightarrow> process_manager" where
  "start m pid pm =
     (if proc_state (pm m) = NotStarted then pm(m := spawn m pid (pm m)) else pm)"

text \<open>
  Modelled from the spec: on an unexpected exit the restart count goes up; under the
  retry budget the process is started again (with a new pid), otherwise the module is
  marked crashed for good. The other modules are not touched.
\<close>

definition on_exit :: "nat \<Rightarrow> Module \<Rightarrow> nat \<Rightarrow> process_manager \<Rightarrow> process_manager" where
  "on_exit budget m pid pm =
     (if proc_state (pm m) = Running then
        (let p = (pm m)\<lparr>restart_count := restart_count (pm m) + 1, proc_pid := None\<rparr>
         in if restart_count p \<le> budget then pm(m := spawn m pid p)
            else pm(m := p\<lparr>proc_state := Crashed\<rparr>))
      else pm)"

text \<open>Modelled from the spec: \<open>stop(module)\<close> ends the process of the module.\<close>

definition stop :: "Module \<Rightarrow> process_manager \<Rightarrow> process_manager" where
  "stop m pm =
     (if proc_state (pm m) = Running
      then pm(m := (pm m)\<lparr>proc_pid := None, proc_state := Stopped\<rparr>) else pm)"

text \<open>
  Modelled from the spec: what can happen to a process manager, and the state after a
  sequence of such events; \<open>budget\<close> is the configured retry budget.
\<close>

datatype pm_event = Start Module nat | Exit Module nat | Stop Module

fun pm_step :: "nat \<Rightarrow> process_manager \<Rightarrow> pm_event \<Rightarrow> process_manager" where
  "pm_step budget pm (Start m pid) = start m pid pm"
| "pm_step budget pm (Exit m pid) = on_exit budget m pid pm"
| "pm_step budget pm (Stop m) = stop m pm"

definition pm_run :: "nat \<Rightarrow> pm_event list \<Rightarrow> process_manager" where
  "pm_run budget events = foldl (pm_step budget) pm_initial events"

text \<open>Modelled from the spec: a port number in decimal, as it stands in a URL.\<close>

fun decimal :: "nat \<Rightarrow> string" where
  "decimal n =
     (if n < 10 then [''0123456789'' ! n]
      else decimal (n div 10) @ [''0123456789'' ! (n mod 10)])"

text \<open>
  Modelled from the spec: the router takes the module of a route
  \<open>/connect/{user}/{project}/{module}/{path}\<close>; a module that is not one of the four
  known names fails with \<open>UnknownModule\<close>.
\<close>

datatype router_error = UnknownModule

definition parse_module :: "string \<Rightarrow> router_error + Module" where
  "parse_module name =
     (case find (\<lambda>m. name_of_module m = name) modules of
        None \<Rightarrow> Inl UnknownModule
      | Some m \<Rightarrow> Inr m)"

text \<open>
  Modelled from the spec: the target the router proxies a request to,
  \<open>http://localhost:{module_port}/{path}\<close>. It is computed from the route alone; the
  state of the process manager is not consulted.
\<close>

definition proxy_target :: "string \<Rightarrow> string \<Rightarrow> router_error + string" where
  "proxy_target name path =
     (case parse_module name of
        Inl e \<Rightarrow> Inl e
      | Inr m \<Rightarrow> Inr (''http://localhost:'' @ decimal (module_port m) @ ''/'' @ path))"

text \<open>
  Modelled from the spec: the binding of a managed process agrees with the static
  binding when the process was ever started, and is empty before.
\<close>

definition port_bound :: "process_manager \<Rightarrow> Module \<Rightarrow> bool" where
  "port_bound pm m \<longleftrightarrow>
     proc_module (pm m) = m \<and>
     proc_port (pm m) = (if proc_state (pm m) = NotStarted then None else Some (module_port m))"

section \<open>Verified properties\<close>

subsection \<open>Chat input\<close>

lemma js_empty [simp]: "js '''' = []"
  by (simp add: js_def)

lemma trim_empty_iff: "trim s = [] \<longleftrightarrow> list_all isWhiteSpace s"
proof
  assume "trim s = []"
  then have all: "\<forall>c \<in> set (dropWhile isWhiteSpace s). isWhiteSpace c"
    by (simp add: trim_def dropWhile_eq_Nil_conv)
  have "dropWhile isWhiteSpace s = []"
  proof (rule ccontr)
    assume ne: "dropWhile isWhiteSpace s \<noteq> []"
    then have "\<not> isWhiteSpace (hd (dropWhile isWhiteSpace s))"
      by (rule hd_dropWhile)
    moreover from ne have "hd (dropWhile isWhiteSpace s) \<in> set (dropWhile isWhiteSpace s)"
      by (rule hd_in_set)
    ultimately show False using all by blast
  qed
  then show "list_all isWhiteSpace s"
    by (simp add: dropWhile_eq_Nil_conv list_all_iff)
next
  assume "list_all isWhiteSpace s"
  then have "dropWhile isWhiteSpace s = []"
    by (simp add: dropWhile_eq_Nil_conv list_all_iff)
  then show "trim s = []"
    by (simp add: trim_def del: dropWhile_eq_Nil_conv)
qed

lemma sent_handleSubmit:
  "sent (handleSubmit m l) = (if trim m \<noteq> [] \<and> \<not> truthy l then [trim m] else [])"
  by (simp add: handleSubmit_def Let_def)

lemma run_handleSubmit:
  "run_chat_input (handleSubmit m l) m = (if trim m \<noteq> [] \<and> \<not> truthy l then [] else m)"
  by (simp add: handleSubmit_def Let_def)

lemma button_onClick_handleSubmit: "button_onClick m l = handleSubmit m l"
  by (simp add: button_onClick_def button_disabled_def handleSubmit_def Let_def)

text \<open>
  Claim C9. The chat input submits a message if and only if the trimmed text is
  non-empty (the text has a character that is not white space) and no send is pending.
  The text handed to \<open>onSend\<close> is exactly the trimmed input, and it is handed over
  once. The state setter is called (with the empty
  string) exactly in that case, so the field is cleared when a message is submitted and
  keeps its text otherwise. Enter without Shift runs the same submit as the send button
  (after \<open>preventDefault\<close>); Enter with Shift and every other key do nothing.
\<close>

theorem C9_chat_input_submit:
  "handleSubmit message isLoading =
     (if trim message \<noteq> [] \<and> \<not> truthy isLoading
      then [OnSend (trim message), SetMessage []] else [])
   \<and> sent (handleSubmit message isLoading) =
     (if trim message \<noteq> [] \<and> \<not> truthy isLoading then [trim message] else [])
   \<and> (sent (handleSubmit message isLoading) \<noteq> [] \<longleftrightarrow>
        \<not> list_all isWhiteSpace message \<and> \<not> truthy isLoading)
   \<and> run_chat_input (handleSubmit message isLoading) message =
     (if trim message \<noteq> [] \<and> \<not> truthy isLoading then [] else message)
   \<and> button_onClick message isLoading = handleSubmit message isLoading
   \<and> handleKeyDown message isLoading (js ''Enter'') False =
       PreventDefault # button_onClick message isLoading
   \<and> handleKeyDown message isLoading (js ''Enter'') True = []
   \<and> handleKeyDown message isLoading key shiftKey =
     (if key = js ''Enter'' \<and> \<not> shiftKey
      then PreventDefault # handleSubmit message isLoading else [])"
  by (simp add: sent_handleSubmit run_handleSubmit button_onClick_handleSubmit
      handleKeyDown_def trim_empty_iff [symmetric])
     (simp add: handleSubmit_def Let_def)

subsection \<open>URL encoding\<close>

lemma hex_digit_unescaped: "n < 16 \<Longrightarrow> uriUnescaped (hex_digit n)"
proof -
  assume "n < 16"
  then have "n \<in> {0,1,2,3,4,5,6,7,8,9,10,11,12,13,14,15}"
    by (simp del: One_nat_def) arith
  then show ?thesis
    by (auto simp: hex_digit_def uriUnescaped_def)
qed

lemma utf8_octets_bound: "cp < 0x110000 \<Longrightarrow> b \<in> set (utf8_octets cp) \<Longrightarrow> b < 256"
  by (auto simp: utf8_octets_def split: if_splits)

lemma percent_octet_chars:
  "b < 256 \<Longrightarrow> c \<in> set (percent_octet b) \<Longrightarrow> uriUnescaped c \<or> c = 0x25"
  by (auto simp: percent_octet_def intro!: hex_digit_unescaped)

lemma percent_encode_chars:
  "cp < 0x110000 \<Longrightarrow> c \<in> set (percent_encode cp) \<Longrightarrow> uriUnescaped c \<or> c = 0x25"
  by (auto simp: percent_encode_def dest: utf8_octets_bound percent_octet_chars)

lemma surrogate_pair_bound:
  "isLeadingSurrogate c \<Longrightarrow> isTrailingSurrogate d \<Longrightarrow>
   UTF16SurrogatePairToCodePoint c d < 0x110000"
  by (auto simp: isLeadingSurrogate_def isTrailingSurrogate_def
      UTF16SurrogatePairToCodePoint_def word_le_nat_alt)

lemma code_unit_bound: "unat (c :: code_unit) < 0x110000"
  using unsigned_less [of c, where ?'a = nat] by simp

text \<open>
  Whatever \<open>encodeURIComponent\<close> returns consists of unreserved characters and
  percent signs only: no \<open>/\<close>, \<open>?\<close>, \<open>&\<close>, \<open>=\<close> or \<open>#\<close> survives.
\<close>

lemma encodeURIComponent_chars:
  "encodeURIComponent s = Inr r \<Longrightarrow> c \<in> set r \<Longrightarrow> uriUnescaped c \<or> c = 0x25"
proof (induction s arbitrary: r rule: encodeURIComponent.induct)
  case 1
  then show ?case by simp
next
  case (2 x xs)
  then show ?case
    by (auto split: if_splits sum.splits list.splits
        dest: percent_encode_chars [OF surrogate_pair_bound]
              percent_encode_chars [OF code_unit_bound])
qed

subsection \<open>Sandbox file API calls\<close>

text \<open>
  Claim C2. Writing a file issues a POST to
  \<open>/connect/{user}/{project}/{module}/api/files\<close> with the JSON document
  \<open>{path, content}\<close> as body (and a JSON content type). The write succeeds if and only
  if \<open>fetch\<close> delivers a response whose status is ok; a response that is not ok makes
  it fail with the error \<open>Failed to write file\<close>.
\<close>

theorem C2_writeFile:
  "writeFile_request userId projectId module path content =
     \<lparr>req_url = js ''/connect/'' @ userId @ js ''/'' @ projectId @ js ''/'' @ module
                @ js ''/api/files'',
      req_method = POST,
      req_headers = [(js ''Content-Type'', js ''application/json'')],
      req_body = Some (JObject [(''path'', JString path), (''content'', JString content)])\<rparr>
   \<and> (writeFile fetch userId projectId module path content = Inr () \<longleftrightarrow>
        (\<exists>response. fetch (writeFile_request userId projectId module path content)
            = Inr response \<and> ok response))
   \<and> (\<forall>response. fetch (writeFile_request userId projectId module path content)
            = Inr response \<and> \<not> ok response \<longrightarrow>
          writeFile fetch userId projectId module path content
            = Inl (Error (js ''Failed to write file'')))"
  by (auto simp: writeFile_request_def writeFile_def split: sum.splits)

theorem C2_writeFile_witness:
  "writeFile (\<lambda>req. Inr \<lparr>ok = False, response_text = Inr [], response_json = Inr ()\<rparr>)
      (js ''alice'') (js ''proj1'') (js ''prototype'') (js ''index.html'') (js ''<p>hi</p>'')
     = Inl (Error (js ''Failed to write file''))
   \<and> writeFile (\<lambda>req. Inr \<lparr>ok = True, response_text = Inr [], response_json = Inr ()\<rparr>)
      (js ''alice'') (js ''proj1'') (js ''prototype'') (js ''index.html'') (js ''<p>hi</p>'')
     = Inr ()"
  using C2_writeFile [of "js ''alice''" "js ''proj1''" "js ''prototype''" "js ''index.html''"
      "js ''<p>hi</p>''"
      "\<lambda>req. Inr \<lparr>ok = False, response_text = Inr [], response_json = Inr ()\<rparr>"]
    C2_writeFile [of "js ''alice''" "js ''proj1''" "js ''prototype''" "js ''index.html''"
      "js ''<p>hi</p>''"
      "\<lambda>req. Inr \<lparr>ok = True, response_text = Inr [], response_json = Inr ()\<rparr>"]
  by simp

text \<open>
  Claim C3. The file-listing request is a GET to
  \<open>/connect/{user}/{project}/{module}/api/files\<close> with nothing appended, and its
  result is the file-node listing decoded from the response. The file-read request is a
  GET to the same URL followed by \<open>?path=\<close> and the URL-encoded path (which holds
  unreserved characters and percent escapes only), and its result is the file decoded from
  the response. In both operations a response that is not ok gives an error.
\<close>

theorem C3_file_requests:
  "fetchFileTree_request userId projectId module =
     \<lparr>req_url = js ''/connect/'' @ userId @ js ''/'' @ projectId @ js ''/'' @ module
                @ js ''/api/files'',
      req_method = GET, req_headers = [], req_body = None\<rparr>
   \<and> (\<forall>encoded. encodeURIComponent path = Inr encoded \<longrightarrow>
          readFile_request userId projectId module path =
            Inr \<lparr>req_url = req_url (fetchFileTree_request userId projectId module)
                             @ js ''?path='' @ encoded,
                 req_method = GET, req_headers = [], req_body = None\<rparr>
          \<and> (\<forall>c \<in> set encoded. uriUnescaped c \<or> c = 0x25))
   \<and> (\<forall>response. fetchList (fetchFileTree_request userId projectId module) = Inr response \<longrightarrow>
          fetchFileTree fetchList userId projectId module =
            (if ok response then response_json response
             else Inl (Error (js ''Failed to fetch file tree''))))
   \<and> (\<forall>req response. readFile_request userId projectId module path = Inr req
            \<and> fetchRead req = Inr response \<longrightarrow>
          readFile fetchRead userId projectId module path =
            (if ok response then response_json response
             else Inl (Error (js ''Failed to read file''))))"
  by (auto simp: fetchFileTree_request_def readFile_request_def fetch_get_def
      fetchFileTree_def readFile_def js_def
      dest: encodeURIComponent_chars split: sum.splits)

theorem C3_file_requests_witness:
  "readFile_request (js ''alice'') (js ''proj1'') (js ''frontend'') (js ''src/a b.txt'') =
     Inr \<lparr>req_url = js ''/connect/alice/proj1/frontend/api/files?path=src%2Fa%20b.txt'',
          req_method = GET, req_headers = [], req_body = None\<rparr>
   \<and> fetchFileTree
        (\<lambda>req. Inr \<lparr>ok = False, response_text = Inr [], response_json = Inr []\<rparr>)
        (js ''alice'') (js ''proj1'') (js ''frontend'')
      = Inl (Error (js ''Failed to fetch file tree''))
   \<and> readFile
        (\<lambda>req. Inr \<lparr>ok = True, response_text = Inr [],
                     response_json = Inr \<lparr>file_path = js ''src/a b.txt'',
                       file_content = js ''hello'', file_type = type_file\<rparr>\<rparr>)
        (js ''alice'') (js ''proj1'') (js ''frontend'') (js ''src/a b.txt'')
      = Inr \<lparr>file_path = js ''src/a b.txt'', file_content = js ''hello'',
             file_type = type_file\<rparr>"
proof -
  have enc: "encodeURIComponent (js ''src/a b.txt'') = Inr (js ''src%2Fa%20b.txt'')"
    by (simp add: js_def uriUnescaped_def isTrailingSurrogate_def isLeadingSurrogate_def
        percent_encode_def percent_octet_def utf8_octets_def hex_digit_def)
  note inst = C3_file_requests [of "js ''alice''" "js ''proj1''" "js ''frontend''"
      "js ''src/a b.txt''"]
  have req: "readFile_request (js ''alice'') (js ''proj1'') (js ''frontend'') (js ''src/a b.txt'')
      = Inr \<lparr>req_url = js ''/connect/alice/proj1/frontend/api/files?path=src%2Fa%20b.txt'',
          req_method = GET, req_headers = [], req_body = None\<rparr>"
    using inst enc by (simp add: js_def)
  have list: "fetchFileTree
        (\<lambda>req. Inr \<lparr>ok = False, response_text = Inr [], response_json = Inr []\<rparr>)
        (js ''alice'') (js ''proj1'') (js ''frontend'')
      = Inl (Error (js ''Failed to fetch file tree''))"
    using inst [of "\<lambda>req. Inr \<lparr>ok = False, response_text = Inr [], response_json = Inr []\<rparr>"]
    by simp
  have read: "readFile
        (\<lambda>req. Inr \<lparr>ok = True, response_text = Inr [],
                     response_json = Inr \<lparr>file_path = js ''src/a b.txt'',
                       file_content = js ''hello'', file_type = type_file\<rparr>\<rparr>)
        (js ''alice'') (js ''proj1'') (js ''frontend'') (js ''src/a b.txt'')
      = Inr \<lparr>file_path = js ''src/a b.txt'', file_content = js ''hello'',
             file_type = type_file\<rparr>"
    using inst req by simp
  from req list read show ?thesis by simp
qed

subsection \<open>Agent chat\<close>

lemma apiUrl_append: "apiUrl build_url path = build_url @ path"
  by (simp add: apiUrl_def API_URL_def)

lemma JSON_stringify_history:
  "map (\<lambda>v. case JSON_stringify v of None \<Rightarrow> JNull | Some j \<Rightarrow> j)
     (map (\<lambda>m. Obj [(''role'', Str (role_string (msg_role m))),
                     (''content'', msg_content m)]) h)
   = map (\<lambda>m. JObject ((''role'', JString (role_string (msg_role m)))
                        # (case JSON_stringify (msg_content m) of
                             None \<Rightarrow> [] | Some j \<Rightarrow> [(''content'', j)]))) h"
  by (induction h) (simp_all split: option.splits)

text \<open>
  Sending goes through \<open>fetch\<close> at exactly the request built from the arguments, and
  the result is read off the reply to that request.
\<close>

lemma mutationFn_sends:
  "mutationFn fetch build_url userId projectId activeModule chatHistory message =
     (case fetch (sendAgentMessage_request build_url
                    (useAgent_request userId projectId activeModule chatHistory message)) of
        Inl e \<Rightarrow> Inl e
      | Inr response \<Rightarrow>
          if ok response then response_json response
          else (case response_text response of
                  Inl e \<Rightarrow> Inl e
                | Inr t \<Rightarrow> Inl (Error (if t \<noteq> [] then t else js ''Failed to send message''))))"
  by (simp add: mutationFn_def sendAgentMessage_def split: sum.splits)

lemma handleSend_outcome:
  "handleSend fetch build_url userId projectId activeModule env1 env2 content messages =
     (let userMessage = \<lparr>msg_id = fst env1, msg_role = user, msg_content = Str content,
                          msg_timestamp = snd env1\<rparr> in
      case mutationFn fetch build_url userId projectId activeModule None content of
        Inl e \<Rightarrow> messages @ [userMessage]
      | Inr response \<Rightarrow>
          (case get_property response ''message'' of
             Inl e \<Rightarrow> messages @ [userMessage]
           | Inr c \<Rightarrow>
               messages @ [userMessage,
                 \<lparr>msg_id = fst env2, msg_role = assistant, msg_content = c,
                  msg_timestamp = snd env2\<rparr>]))"
  by (simp add: handleSend_def mutate_def ChatPanel_onSuccess_def Let_def split: sum.splits)

lemma shape_message:
  "AgentResponse_shape response \<Longrightarrow> \<exists>text. get_property response ''message'' = Inr (Str text)"
  by (auto simp: AgentResponse_shape_def is_string_def split: jsvalue.splits sum.splits)

text \<open>
  Claim C4. A chat message is sent as a POST to the agent chat URL, that is
  \<open>/agent/chat\<close> behind the configured gateway address (and exactly \<open>/agent/chat\<close>
  when none is configured). Its JSON body has the field \<open>message\<close>, then the field
  \<open>chat_history\<close> only when a history was supplied (the role and content of each prior
  message, in order), then the field \<open>context\<close> with \<open>userId\<close>, \<open>projectId\<close> and
  \<open>activeModule\<close>; it has no other field. The chat panel supplies no history, so its
  requests carry \<open>message\<close> and \<open>context\<close> only. The mutation function of the hook
  hands exactly this request to \<open>fetch\<close> and returns what the reply to it gives; and
  \<open>handleSend\<close> of the chat panel, for the message typed by the user, hands the
  panel's request to \<open>fetch\<close> and updates the conversation from the reply to it.
\<close>

theorem C4_agent_chat_request:
  "sendAgentMessage_request build_url
      (useAgent_request userId projectId activeModule chatHistory message) =
     \<lparr>req_url = build_url @ js ''/agent/chat'',
      req_method = POST,
      req_headers = [(js ''Content-Type'', js ''application/json'')],
      req_body = Some (JObject
        ([(''message'', JString message)]
         @ (case chatHistory of
              None \<Rightarrow> []
            | Some h \<Rightarrow>
                [(''chat_history'',
                  JArray (map (\<lambda>m. JObject
                     ((''role'', JString (role_string (msg_role m)))
                      # (case JSON_stringify (msg_content m) of
                           None \<Rightarrow> [] | Some j \<Rightarrow> [(''content'', j)]))) h))])
         @ [(''context'',
             JObject [(''userId'', JString userId),
                      (''projectId'', JString projectId),
                      (''activeModule'', JString activeModule)])]))\<rparr>
   \<and> req_url (sendAgentMessage_request (js '''') request) = js ''/agent/chat''
   \<and> ChatPanel_request build_url userId projectId activeModule message =
     \<lparr>req_url = build_url @ js ''/agent/chat'',
      req_method = POST,
      req_headers = [(js ''Content-Type'', js ''application/json'')],
      req_body = Some (JObject
        [(''message'', JString message),
         (''context'',
             JObject [(''userId'', JString userId),
                      (''projectId'', JString projectId),
                      (''activeModule'', JString activeModule)])])\<rparr>
   \<and> mutationFn fetch build_url userId projectId activeModule chatHistory message =
     (case fetch (sendAgentMessage_request build_url
                    (useAgent_request userId projectId activeModule chatHistory message)) of
        Inl e \<Rightarrow> Inl e
      | Inr response \<Rightarrow>
          if ok response then response_json response
          else (case response_text response of
                  Inl e \<Rightarrow> Inl e
                | Inr t \<Rightarrow> Inl (Error (if t \<noteq> [] then t else js ''Failed to send message''))))
   \<and> handleSend fetch build_url userId projectId activeModule env1 env2 message messages =
     (let userMessage = \<lparr>msg_id = fst env1, msg_role = user, msg_content = Str message,
                          msg_timestamp = snd env1\<rparr> in
      case fetch (ChatPanel_request build_url userId projectId activeModule message) of
        Inl e \<Rightarrow> messages @ [userMessage]
      | Inr response \<Rightarrow>
          if ok response then
            (case response_json response of
               Inl e \<Rightarrow> messages @ [userMessage]
             | Inr reply \<Rightarrow>
                 (case get_property reply ''message'' of
                    Inl e \<Rightarrow> messages @ [userMessage]
                  | Inr c \<Rightarrow>
                      messages @ [userMessage,
                        \<lparr>msg_id = fst env2, msg_role = assistant, msg_content = c,
                         msg_timestamp = snd env2\<rparr>]))
          else messages @ [userMessage])"
proof (intro conjI)
  show "sendAgentMessage_request build_url
      (useAgent_request userId projectId activeModule chatHistory message) =
     \<lparr>req_url = build_url @ js ''/agent/chat'',
      req_method = POST,
      req_headers = [(js ''Content-Type'', js ''application/json'')],
      req_body = Some (JObject
        ([(''message'', JString message)]
         @ (case chatHistory of
              None \<Rightarrow> []
            | Some h \<Rightarrow>
                [(''chat_history'',
                  JArray (map (\<lambda>m. JObject
                     ((''role'', JString (role_string (msg_role m)))
                      # (case JSON_stringify (msg_content m) of
                           None \<Rightarrow> [] | Some j \<Rightarrow> [(''content'', j)]))) h))])
         @ [(''context'',
             JObject [(''userId'', JString userId),
                      (''projectId'', JString projectId),
                      (''activeModule'', JString activeModule)])]))\<rparr>"
    by (cases chatHistory)
       (simp_all add: sendAgentMessage_request_def useAgent_request_def agentChatUrl_def
         apiUrl_append JSON_stringify_history split: option.splits)
  show "req_url (sendAgentMessage_request (js '''') request) = js ''/agent/chat''"
    by (simp add: sendAgentMessage_request_def agentChatUrl_def apiUrl_append)
  show "ChatPanel_request build_url userId projectId activeModule message =
     \<lparr>req_url = build_url @ js ''/agent/chat'',
      req_method = POST,
      req_headers = [(js ''Content-Type'', js ''application/json'')],
      req_body = Some (JObject
        [(''message'', JString message),
         (''context'',
             JObject [(''userId'', JString userId),
                      (''projectId'', JString projectId),
                      (''activeModule'', JString activeModule)])])\<rparr>"
    by (simp add: ChatPanel_request_def sendAgentMessage_request_def useAgent_request_def
        agentChatUrl_def apiUrl_append)
  show "mutationFn fetch build_url userId projectId activeModule chatHistory message =
     (case fetch (sendAgentMessage_request build_url
                    (useAgent_request userId projectId activeModule chatHistory message)) of
        Inl e \<Rightarrow> Inl e
      | Inr response \<Rightarrow>
          if ok response then response_json response
          else (case response_text response of
                  Inl e \<Rightarrow> Inl e
                | Inr t \<Rightarrow> Inl (Error (if t \<noteq> [] then t else js ''Failed to send message''))))"
    by (rule mutationFn_sends)
  show "handleSend fetch build_url userId projectId activeModule env1 env2 message messages =
     (let userMessage = \<lparr>msg_id = fst env1, msg_role = user, msg_content = Str message,
                          msg_timestamp = snd env1\<rparr> in
      case fetch (ChatPanel_request build_url userId projectId activeModule message) of
        Inl e \<Rightarrow> messages @ [userMessage]
      | Inr response \<Rightarrow>
          if ok response then
            (case response_json response of
               Inl e \<Rightarrow> messages @ [userMessage]
             | Inr reply \<Rightarrow>
                 (case get_property reply ''message'' of
                    Inl e \<Rightarrow> messages @ [userMessage]
                  | Inr c \<Rightarrow>
                      messages @ [userMessage,
                        \<lparr>msg_id = fst env2, msg_role = assistant, msg_content = c,
                         msg_timestamp = snd env2\<rparr>]))
          else messages @ [userMessage])"
    unfolding handleSend_outcome mutationFn_sends ChatPanel_request_def Let_def
    by (simp split: sum.splits)
qed

text \<open>
  A reply with status 200 whose body is the empty object is a successful exchange, yet
  the reply has no \<open>message\<close> and the assistant message that is appended has the
  content \<open>undefined\<close>: the client does not check the shape of a reply.
\<close>

theorem C5_unchecked_reply_counterexample:
  "mutationFn (server_replying (Obj [])) (js ''https://gw.example'') (js ''demo-user'')
      (js ''demo-project'') (js ''frontend'') None (js ''Create a button'') = Inr (Obj [])
   \<and> \<not> AgentResponse_shape (Obj [])
   \<and> handleSend (server_replying (Obj [])) (js ''https://gw.example'') (js ''demo-user'')
       (js ''demo-project'') (js ''frontend'') (js ''id-1'', 10) (js ''id-2'', 20)
       (js ''Create a button'') []
     = [\<lparr>msg_id = js ''id-1'', msg_role = user, msg_content = Str (js ''Create a button''),
          msg_timestamp = 10\<rparr>,
        \<lparr>msg_id = js ''id-2'', msg_role = assistant, msg_content = Undefined,
          msg_timestamp = 20\<rparr>]"
  by (simp add: handleSend_outcome mutationFn_sends server_replying_def
      AgentResponse_shape_def is_string_def)

text \<open>A reply whose body is \<open>null\<close> makes \<open>onSuccess\<close> throw: nothing is appended.\<close>

lemma handleSend_null_reply:
  "handleSend (server_replying Null) build_url userId projectId activeModule env1 env2
     content messages
   = messages @ [\<lparr>msg_id = fst env1, msg_role = user, msg_content = Str content,
                   msg_timestamp = snd env1\<rparr>]"
  by (simp add: handleSend_outcome mutationFn_sends server_replying_def)

text \<open>
  Claim C5, for responses of the declared shape. When an exchange succeeds and the
  response has the shape
  \<open>{message, actions?}\<close> with actions \<open>{type, path}\<close>, the conversation becomes the
  previous one, then the user's message, then one assistant message whose content is
  exactly the \<open>message\<close> field of the response. When the exchange fails, only the
  user's message has been appended.
\<close>

theorem C5_chat_exchange:
  "(\<forall>response.
      mutationFn fetch build_url userId projectId activeModule None content = Inr response
      \<and> AgentResponse_shape response \<longrightarrow>
      (\<exists>text. get_property response ''message'' = Inr (Str text)
         \<and> handleSend fetch build_url userId projectId activeModule env1 env2 content messages =
           messages
           @ [\<lparr>msg_id = fst env1, msg_role = user, msg_content = Str content,
                msg_timestamp = snd env1\<rparr>,
              \<lparr>msg_id = fst env2, msg_role = assistant, msg_content = Str text,
                msg_timestamp = snd env2\<rparr>]))
   \<and> (\<forall>e.
      mutationFn fetch build_url userId projectId activeModule None content = Inl e \<longrightarrow>
      handleSend fetch build_url userId projectId activeModule env1 env2 content messages =
        messages
        @ [\<lparr>msg_id = fst env1, msg_role = user, msg_content = Str content,
             msg_timestamp = snd env1\<rparr>])"
proof (intro conjI allI impI)
  fix response
  assume a: "mutationFn fetch build_url userId projectId activeModule None content = Inr response
      \<and> AgentResponse_shape response"
  then obtain text' where t: "get_property response ''message'' = Inr (Str text')"
    using shape_message by blast
  have "handleSend fetch build_url userId projectId activeModule env1 env2 content messages =
           messages
           @ [\<lparr>msg_id = fst env1, msg_role = user, msg_content = Str content,
                msg_timestamp = snd env1\<rparr>,
              \<lparr>msg_id = fst env2, msg_role = assistant, msg_content = Str text',
                msg_timestamp = snd env2\<rparr>]"
    using a t by (simp add: handleSend_outcome)
  with t show "\<exists>text. get_property response ''message'' = Inr (Str text)
         \<and> handleSend fetch build_url userId projectId activeModule env1 env2 content messages =
           messages
           @ [\<lparr>msg_id = fst env1, msg_role = user, msg_content = Str content,
                msg_timestamp = snd env1\<rparr>,
              \<lparr>msg_id = fst env2, msg_role = assistant, msg_content = Str text,
                msg_timestamp = snd env2\<rparr>]"
    by blast
next
  fix e
  assume "mutationFn fetch build_url userId projectId activeModule None content = Inl e"
  then show "handleSend fetch build_url userId projectId activeModule env1 env2 content messages =
        messages
        @ [\<lparr>msg_id = fst env1, msg_role = user, msg_content = Str content,
             msg_timestamp = snd env1\<rparr>]"
    by (simp add: handleSend_outcome)
qed

theorem C5_chat_exchange_witness:
  "handleSend
     (server_replying
        (Obj [(''message'', Str (js ''Done'')),
              (''actions'', Arr [Obj [(''type'', Str (js ''file_created'')),
                                      (''path'', Str (js ''src/Button.tsx''))]])]))
     (js ''https://gw.example'') (js ''demo-user'') (js ''demo-project'') (js ''frontend'')
     (js ''id-1'', 10) (js ''id-2'', 20) (js ''Create a button'') []
   = [\<lparr>msg_id = js ''id-1'', msg_role = user, msg_content = Str (js ''Create a button''),
        msg_timestamp = 10\<rparr>,
      \<lparr>msg_id = js ''id-2'', msg_role = assistant, msg_content = Str (js ''Done''),
        msg_timestamp = 20\<rparr>]
   \<and> handleSend
     (\<lambda>req. Inl TypeError)
     (js ''https://gw.example'') (js ''demo-user'') (js ''demo-project'') (js ''frontend'')
     (js ''id-1'', 10) (js ''id-2'', 20) (js ''Create a button'') []
   = [\<lparr>msg_id = js ''id-1'', msg_role = user, msg_content = Str (js ''Create a button''),
        msg_timestamp = 10\<rparr>]"
proof -
  let ?reply = "Obj [(''message'', Str (js ''Done'')),
              (''actions'', Arr [Obj [(''type'', Str (js ''file_created'')),
                                      (''path'', Str (js ''src/Button.tsx''))]])]"
  let ?bad = "\<lambda>req :: request. Inl TypeError :: error + jsvalue response"
  have good: "mutationFn (server_replying ?reply) (js ''https://gw.example'') (js ''demo-user'')
      (js ''demo-project'') (js ''frontend'') None (js ''Create a button'') = Inr ?reply"
    by (simp add: mutationFn_def sendAgentMessage_def server_replying_def)
  have shape: "AgentResponse_shape ?reply"
    by (simp add: AgentResponse_shape_def action_shape_def is_string_def)
  have msg: "get_property ?reply ''message'' = Inr (Str (js ''Done''))"
    by simp
  have bad: "mutationFn ?bad (js ''https://gw.example'') (js ''demo-user'')
      (js ''demo-project'') (js ''frontend'') None (js ''Create a button'') = Inl TypeError"
    by (simp add: mutationFn_def sendAgentMessage_def)
  show ?thesis
    using good shape msg bad
      C5_chat_exchange [of "server_replying ?reply" "js ''https://gw.example''"
        "js ''demo-user''" "js ''demo-project''" "js ''frontend''" "js ''Create a button''"
        "(js ''id-1'', 10)" "(js ''id-2'', 20)" "[]"]
      C5_chat_exchange [of ?bad "js ''https://gw.example''" "js ''demo-user''"
        "js ''demo-project''" "js ''frontend''" "js ''Create a button''"
        "(js ''id-1'', 10)" "(js ''id-2'', 20)" "[]"]
    by (auto simp del: get_property.simps)
qed

subsection \<open>Modules, navigation and preview\<close>

lemma NAV_ITEMS_ids: "map item_id NAV_ITEMS = ModuleType"
  by (simp add: NAV_ITEMS_def ModuleType_def)

lemma IconSidebar_modules: "map button_module (IconSidebar activeModule) = ModuleType"
  by (simp add: IconSidebar_def NAV_ITEMS_def ModuleType_def)

lemma App_reachable_ModuleType: "App_reachable activeModule \<Longrightarrow> activeModule \<in> set ModuleType"
proof (induction rule: App_reachable.induct)
  case initial
  show ?case by (simp add: ModuleType_def)
next
  case (onModuleChange activeModule b)
  from onModuleChange.hyps(2) have "button_module b \<in> set (map button_module (IconSidebar activeModule))"
    by simp
  then show ?case by (simp only: IconSidebar_modules)
qed

lemma MODULE_LABELS_dom: "dom MODULE_LABELS = set ModuleType"
  by (auto simp: MODULE_LABELS_def ModuleType_def split: if_splits)

text \<open>
  Claim C6. The navigation lists the modules prototype, frontend, dbml, tests in this
  order, and these are the only values its buttons pass to \<open>onModuleChange\<close>. So the
  active module of the running client is always one of the four; for such a module the
  preview pane has a label to display, and the module is the one embedded in the
  \<open>/connect\<close> URL of the iframe and handed to the chat panel.
\<close>

theorem C6_modules_closed:
  "map item_id NAV_ITEMS = [js ''prototype'', js ''frontend'', js ''dbml'', js ''tests'']
   \<and> map button_module (IconSidebar selected) =
       [js ''prototype'', js ''frontend'', js ''dbml'', js ''tests'']
   \<and> (App_reachable activeModule \<longrightarrow>
        activeModule \<in> {js ''prototype'', js ''frontend'', js ''dbml'', js ''tests''}
        \<and> header_label (shell_preview (App build_url activeModule filter' opened pane)) \<noteq> None
        \<and> iframe_src (shell_preview (App build_url activeModule filter' opened pane)) =
            build_url @ js ''/connect/demo-user/demo-project/'' @ activeModule @ js ''/''
        \<and> shell_chat (App build_url activeModule filter' opened pane) =
            (js ''demo-user'', js ''demo-project'', activeModule))"
proof (intro conjI impI)
  show "map item_id NAV_ITEMS = [js ''prototype'', js ''frontend'', js ''dbml'', js ''tests'']"
    by (simp add: NAV_ITEMS_def)
  show "map button_module (IconSidebar selected) =
       [js ''prototype'', js ''frontend'', js ''dbml'', js ''tests'']"
    by (simp add: IconSidebar_modules ModuleType_def)
next
  assume r: "App_reachable activeModule"
  then have m: "activeModule \<in> set ModuleType"
    by (rule App_reachable_ModuleType)
  then show "activeModule \<in> {js ''prototype'', js ''frontend'', js ''dbml'', js ''tests''}"
    by (simp add: ModuleType_def)
  from m have "activeModule \<in> dom MODULE_LABELS"
    by (simp only: MODULE_LABELS_dom)
  then show "header_label (shell_preview (App build_url activeModule filter' opened pane)) \<noteq> None"
    by (auto simp: App_def AppShell_def PreviewPane_def Let_def)
  show "iframe_src (shell_preview (App build_url activeModule filter' opened pane)) =
            build_url @ js ''/connect/demo-user/demo-project/'' @ activeModule @ js ''/''"
    by (simp add: App_def AppShell_def PreviewPane_def Let_def previewUrl_def apiUrl_append
        js_def)
  show "shell_chat (App build_url activeModule filter' opened pane) =
            (js ''demo-user'', js ''demo-project'', activeModule)"
    by (simp add: App_def AppShell_def)
qed

theorem C6_modules_closed_witness:
  "App_reachable (js ''dbml'')
   \<and> js ''dbml'' \<in> {js ''prototype'', js ''frontend'', js ''dbml'', js ''tests''}
   \<and> iframe_src (shell_preview (App (js ''https://gw.example'') (js ''dbml'') [] (\<lambda>p. None)
         \<lparr>st_refreshKey = 0, st_isLoading = True, st_hasError = False\<rparr>)) =
       js ''https://gw.example/connect/demo-user/demo-project/dbml/''"
proof -
  let ?b = "\<lparr>aria_label = js ''DBML'', aria_pressed = False, button_icon = Database,
             button_module = js ''dbml''\<rparr>"
  have "?b \<in> set (IconSidebar (js ''prototype''))"
    by (simp add: IconSidebar_def NAV_ITEMS_def js_def)
  then have "App_reachable (button_module ?b)"
    by (rule App_reachable.onModuleChange [OF App_reachable.initial])
  then have r: "App_reachable (js ''dbml'')"
    by simp
  show ?thesis
    using r C6_modules_closed [of "js ''prototype''" "js ''dbml''" "js ''https://gw.example''"
        "[]" "\<lambda>p. None" "\<lparr>st_refreshKey = 0, st_isLoading = True, st_hasError = False\<rparr>"]
    by (simp add: js_def)
qed

lemma PreviewPane_inline_url_agrees:
  "PreviewPane_inline_url activeModule userId projectId =
     previewUrl build_url userId projectId activeModule \<longleftrightarrow> build_url = []"
  by (auto simp: PreviewPane_inline_url_def previewUrl_def apiUrl_append)

text \<open>
  Claim C8. For every user, project, module and build-time gateway URL (empty or not),
  the source of the iframe in the preview pane is the result of \<open>previewUrl\<close>, which is
  \<open>apiUrl\<close> applied to \<open>/connect/{userId}/{projectId}/{module}/\<close>, that is the gateway
  URL followed by that path. The URL shown in the header and the URL opened by the
  external-link button are the same, and a refresh does not change it.
\<close>

theorem C8_preview_iframe_src:
  "iframe_src (PreviewPane build_url activeModule userId projectId st) =
     previewUrl build_url userId projectId activeModule
   \<and> previewUrl build_url userId projectId activeModule =
     apiUrl build_url
       (js ''/connect/'' @ userId @ js ''/'' @ projectId @ js ''/'' @ activeModule @ js ''/'')
   \<and> iframe_src (PreviewPane build_url activeModule userId projectId st) =
     build_url @ js ''/connect/'' @ userId @ js ''/'' @ projectId @ js ''/'' @ activeModule
       @ js ''/''
   \<and> header_url (PreviewPane build_url activeModule userId projectId st) =
     iframe_src (PreviewPane build_url activeModule userId projectId st)
   \<and> handleOpenExternal build_url activeModule userId projectId =
     [WindowOpen (iframe_src (PreviewPane build_url activeModule userId projectId st))
        (js ''_blank'')]
   \<and> iframe_src (PreviewPane build_url activeModule userId projectId (handleRefresh st)) =
     iframe_src (PreviewPane build_url activeModule userId projectId st)"
  by (simp add: PreviewPane_def Let_def previewUrl_def apiUrl_append handleOpenExternal_def)

subsection \<open>File browser\<close>

lemma useSandbox_mount_fetches:
  "filter is_Fetch (useSandbox_mount userId projectId module) =
     [Fetch (fetchFileTree_request userId projectId module)]"
  by (simp add: useSandbox_mount_def)

lemma no_fetch_onClick: "filter is_Fetch (FileTreeItem_onClick onFileSelect node isOpen) = []"
  by (simp add: FileTreeItem_onClick_def handleSelect_def)

text \<open>
  Claim C10. The file browser renders the items of the constant \<open>MOCK_FILES\<close>: its
  rows are computed from that tree and the open/closed cells of the items alone. The
  filter text only shows in the input field, so two filter texts give the same rows; the
  browser as the shell renders it does not depend on user, project or module. With all
  directories open the rows are all nine nodes of \<open>MOCK_FILES\<close>; as first mounted
  (top level open) they are the seven nodes outside \<open>/src/components\<close>. Mounting the
  browser and handling its events (typing in the filter, clicking an item) issue no
  request.
\<close>

theorem C10_list_module_constant:
  "tree_rows (ListModule filter1 opened) = concat (map (FileTreeItem opened 0) MOCK_FILES)
   \<and> tree_rows (ListModule filter1 opened) = tree_rows (ListModule filter2 opened)
   \<and> input_value (ListModule filter1 opened) = filter1
   \<and> shell_list (AppShell build_url activeModule userId projectId filter1 opened pane) =
       ListModule filter1 opened
   \<and> map row_path (tree_rows (ListModule filter1 (\<lambda>p. Some True))) =
       [js ''/src'', js ''/src/index.html'', js ''/src/App.tsx'', js ''/src/styles.css'',
        js ''/src/components'', js ''/src/components/Header.tsx'',
        js ''/src/components/Footer.tsx'', js ''/package.json'', js ''/README.md'']
   \<and> map row_path (tree_rows (ListModule filter1 (\<lambda>p. None))) =
       [js ''/src'', js ''/src/index.html'', js ''/src/App.tsx'', js ''/src/styles.css'',
        js ''/src/components'', js ''/package.json'', js ''/README.md'']
   \<and> ListModule_mount = []
   \<and> filter is_Fetch (ListModule_onChange v) = []
   \<and> filter is_Fetch (FileTreeItem_onClick onFileSelect node isOpen) = []"
  by (simp add: ListModule_def AppShell_def MOCK_FILES_def ListModule_mount_def
      ListModule_onChange_def no_fetch_onClick)

subsection \<open>Path Security\<close>

lemma split_path_nonempty: "split_path p \<noteq> []"
  by (induction p) (auto split: list.splits)

lemma split_path_no_separator: "s \<in> set (split_path p) \<Longrightarrow> CHR ''/'' \<notin> set s"
proof (induction p arbitrary: s)
  case Nil
  then show ?case by simp
next
  case (Cons c cs)
  then show ?case
    by (auto split: if_splits list.splits)
qed

lemma split_path_plain: "CHR ''/'' \<notin> set s \<Longrightarrow> split_path s = [s]"
  by (induction s) (auto split: list.splits)

lemma split_path_append:
  "CHR ''/'' \<notin> set s \<Longrightarrow> split_path (s @ CHR ''/'' # r) = s # split_path r"
  by (induction s) (auto split: list.splits simp: split_path_nonempty)

lemma split_path_join:
  "CHR ''/'' \<notin> set s \<Longrightarrow> (\<And>t. t \<in> set ss \<Longrightarrow> CHR ''/'' \<notin> set t) \<Longrightarrow>
   split_path (s @ concat (map (\<lambda>t. CHR ''/'' # t) ss)) = s # ss"
proof (induction ss arbitrary: s)
  case Nil
  then show ?case by (simp add: split_path_plain)
next
  case (Cons t ts)
  have "split_path (t @ concat (map (\<lambda>t. CHR ''/'' # t) ts)) = t # ts"
    using Cons.prems by (intro Cons.IH) auto
  with Cons.prems(1) show ?case
    by (simp add: split_path_append)
qed

lemma candidate_inside_root:
  assumes "segs \<noteq> []" and "\<And>t. t \<in> set segs \<Longrightarrow> CHR ''/'' \<notin> set t"
    and "\<And>t. t \<in> set segs \<Longrightarrow> t \<noteq> []" and "''..'' \<notin> set segs"
  shows "inside_root module_root (module_root @ concat (map (\<lambda>s. CHR ''/'' # s) segs))"
proof -
  from assms(1) obtain s ss where segs: "segs = s # ss"
    by (cases segs) auto
  let ?rest = "s @ concat (map (\<lambda>t. CHR ''/'' # t) ss)"
  have cand: "module_root @ concat (map (\<lambda>s. CHR ''/'' # s) segs)
      = (module_root @ ''/'') @ ?rest"
    by (simp add: segs)
  have split: "split_path ?rest = s # ss"
    using assms(2) by (intro split_path_join) (auto simp: segs)
  have "s \<noteq> []"
    using assms(3) by (simp add: segs)
  then have "?rest \<noteq> []"
    by simp
  moreover have "''..'' \<notin> set (split_path ?rest)"
    using assms(4) by (simp add: split segs)
  moreover have "drop (length module_root + 1) ((module_root @ ''/'') @ ?rest) = ?rest"
    by simp
  ultimately show ?thesis
    unfolding inside_root_def cand Let_def by (simp del: append_assoc)
qed

lemma resolve_inside_root:
  assumes "resolve links_outside module_root p = Inr a"
  shows "inside_root module_root a"
proof -
  let ?segs = "filter (\<lambda>s. s \<noteq> [] \<and> s \<noteq> ''.'') (split_path p)"
  from assms have a: "a = module_root @ concat (map (\<lambda>s. CHR ''/'' # s) ?segs)"
    and nodots: "''..'' \<notin> set (split_path p)" and nonempty: "?segs \<noteq> []"
    by (auto simp: resolve_def Let_def split: if_splits)
  have "inside_root module_root (module_root @ concat (map (\<lambda>s. CHR ''/'' # s) ?segs))"
  proof (rule candidate_inside_root)
    show "?segs \<noteq> []" by (rule nonempty)
    show "CHR ''/'' \<notin> set t" if "t \<in> set ?segs" for t
      using that by (auto dest: split_path_no_separator)
    show "t \<noteq> []" if "t \<in> set ?segs" for t
      using that by auto
    show "''..'' \<notin> set ?segs"
      using nodots by auto
  qed
  then show ?thesis by (simp only: a)
qed

text \<open>
  Claim C1. For every module root and every path that has a \<open>..\<close> segment or is
  absolute, \<open>resolve\<close> fails with \<open>PathTraversal\<close>; and whatever path \<open>resolve\<close>
  returns lies inside the module root.
\<close>

theorem C1_resolve_path_traversal:
  "(''..'' \<in> set (split_path p) \<or> is_absolute p \<longrightarrow>
      resolve links_outside module_root p = Inl PathTraversal)
   \<and> (\<forall>a. resolve links_outside module_root p = Inr a \<longrightarrow> inside_root module_root a)"
  by (auto simp: resolve_inside_root) (auto simp: resolve_def Let_def)

theorem C1_resolve_path_traversal_witness:
  "resolve (\<lambda>a. False) ''/root/workspace/prototype'' ''../../etc/passwd'' = Inl PathTraversal
   \<and> resolve (\<lambda>a. False) ''/root/workspace/prototype'' ''/etc/passwd'' = Inl PathTraversal
   \<and> resolve (\<lambda>a. False) ''/root/workspace/prototype'' ''src/./index.html''
       = Inr ''/root/workspace/prototype/src/index.html''
   \<and> inside_root ''/root/workspace/prototype'' ''/root/workspace/prototype/src/index.html''"
proof -
  have dots: "''..'' \<in> set (split_path ''../../etc/passwd'')"
    by simp
  have abs: "is_absolute ''/etc/passwd''"
    by (simp add: is_absolute_def)
  have ok: "resolve (\<lambda>a. False) ''/root/workspace/prototype'' ''src/./index.html''
       = Inr ''/root/workspace/prototype/src/index.html''"
    by (simp add: resolve_def Let_def is_control_def is_absolute_def)
  show ?thesis
    using dots abs ok
      C1_resolve_path_traversal [of "''../../etc/passwd''" "\<lambda>a. False"
        "''/root/workspace/prototype''"]
      C1_resolve_path_traversal [of "''/etc/passwd''" "\<lambda>a. False"
        "''/root/workspace/prototype''"]
      C1_resolve_path_traversal [of "''src/./index.html''" "\<lambda>a. False"
        "''/root/workspace/prototype''"]
    by blast
qed

subsection \<open>Process Manager and Gateway Router\<close>

lemma port_bound_step: "(\<And>m. port_bound pm m) \<Longrightarrow> port_bound (pm_step budget pm ev) m"
  by (cases ev)
     (auto simp: port_bound_def start_def on_exit_def stop_def spawn_def Let_def)

lemma port_bound_foldl:
  "(\<And>m. port_bound pm m) \<Longrightarrow> port_bound (foldl (pm_step budget) pm events) m"
proof (induction events arbitrary: pm m)
  case Nil
  then show ?case by simp
next
  case (Cons ev events)
  show ?case
    by (simp, rule Cons.IH, rule port_bound_step, rule Cons.prems)
qed

lemma port_bound_run: "port_bound (pm_run budget events) m"
  unfolding pm_run_def
  by (rule port_bound_foldl) (simp add: port_bound_def pm_initial_def)

lemma parse_module_name: "parse_module (name_of_module m) = Inr m"
  by (cases m) (simp_all add: parse_module_def modules_def name_of_module_def)

lemma parse_module_unknown:
  "parse_module name = Inl UnknownModule \<longleftrightarrow>
     name \<notin> {''prototype'', ''frontend'', ''dbml'', ''tests''}"
  by (auto simp: parse_module_def modules_def name_of_module_def split: option.splits if_splits)

text \<open>
  Claim C7. The port of a module is fixed: 3001 for prototype, 3002 for frontend, 3003
  for dbml, 3004 for tests, all different. It is never negotiated: after any sequence of
  starts, unexpected exits (with restarts or a permanent crash) and stops, under any
  retry budget, a process that was ever started is bound to the port of its module and
  a process never started is bound to none. So the proxy target of the router is
  computed from the module name alone, as \<open>http://localhost:\<close> followed by that port
  and the path, and a name outside the four modules gives \<open>UnknownModule\<close>.
\<close>

theorem C7_module_ports:
  "module_port Prototype = 3001 \<and> module_port Frontend = 3002
   \<and> module_port Dbml = 3003 \<and> module_port Tests = 3004
   \<and> distinct (map module_port modules)
   \<and> proc_port (pm_run budget events m) =
       (if proc_state (pm_run budget events m) = NotStarted then None
        else Some (module_port m))
   \<and> proxy_target (name_of_module m) path =
       Inr (''http://localhost:'' @ decimal (module_port m) @ ''/'' @ path)
   \<and> proxy_target ''prototype'' path = Inr (''http://localhost:3001/'' @ path)
   \<and> proxy_target ''frontend'' path = Inr (''http://localhost:3002/'' @ path)
   \<and> proxy_target ''dbml'' path = Inr (''http://localhost:3003/'' @ path)
   \<and> proxy_target ''tests'' path = Inr (''http://localhost:3004/'' @ path)
   \<and> (proxy_target name path = Inl UnknownModule \<longleftrightarrow>
        name \<notin> {''prototype'', ''frontend'', ''dbml'', ''tests''})"
proof -
  have ports: "module_port Prototype = 3001 \<and> module_port Frontend = 3002
      \<and> module_port Dbml = 3003 \<and> module_port Tests = 3004
      \<and> distinct (map module_port modules)"
    by (simp add: module_port_def modules_def)
  have bound: "proc_port (pm_run budget events m) =
       (if proc_state (pm_run budget events m) = NotStarted then None
        else Some (module_port m))"
    using port_bound_run [of budget events m] by (simp add: port_bound_def)
  have target: "proxy_target (name_of_module m) path =
       Inr (''http://localhost:'' @ decimal (module_port m) @ ''/'' @ path)"
    by (simp add: proxy_target_def parse_module_name del: decimal.simps)
  have lits: "proxy_target ''prototype'' path = Inr (''http://localhost:3001/'' @ path)
     \<and> proxy_target ''frontend'' path = Inr (''http://localhost:3002/'' @ path)
     \<and> proxy_target ''dbml'' path = Inr (''http://localhost:3003/'' @ path)
     \<and> proxy_target ''tests'' path = Inr (''http://localhost:3004/'' @ path)"
    by (simp add: proxy_target_def parse_module_def modules_def name_of_module_def
        module_port_def)
  have unknown: "proxy_target name path = Inl UnknownModule \<longleftrightarrow>
        name \<notin> {''prototype'', ''frontend'', ''dbml'', ''tests''}"
    using parse_module_unknown [of name]
    by (auto simp: proxy_target_def split: sum.splits)
  from ports bound target lits unknown show ?thesis by blast
qed

end
